theory Spec2Isabelle
  imports Main "HOL-Library.Multiset"
begin

section \<open>Product-scoped messaging of the marketplace client\<close>

text \<open>
  The messaging code lives in two places: the message service of the database module
  (\<^verbatim>\<open>messageService\<close>: thin wrappers around backend procedures and realtime
  channels) and the React hooks \<^verbatim>\<open>useConversations\<close>,
  \<^verbatim>\<open>useProductMessages\<close> and \<^verbatim>\<open>useUnreadMessageCount\<close>, which hold the
  client-side caches. Hook state is passed explicitly; a thrown exception is the left
  summand of a sum type.

  Identifiers are JavaScript strings. Timestamps are ISO strings in the source, assigned
  by the backend with microsecond resolution; the model holds a timestamp as the instant
  it denotes, in microseconds since the epoch. The client only ever reads a timestamp
  through \<^verbatim>\<open>new Date(s)\<close>, which keeps whole milliseconds: that reading is
  \<open>getTime\<close> below.
\<close>

subsection \<open>Data\<close>

text \<open>A row of the \<^verbatim>\<open>messages\<close> table, as a realtime payload carries it and as the
  backend returns it.\<close>

record message_row =
  msg_id :: string
  product_id :: string
  sender_id :: string
  recipient_id :: string
  content :: string
  read_at :: "int option"
  created_at :: int

text \<open>\<^verbatim>\<open>new Date(s).getTime()\<close>, and the same for the \<^verbatim>\<open>created_at\<close> of a message:
  the milliseconds since the epoch, the digits below a millisecond dropped.\<close>

definition getTime :: "int \<Rightarrow> int" where
  "getTime t = t div 1000"

definition created_time :: "'a message_row_scheme \<Rightarrow> int" where
  "created_time m = getTime (created_at m)"

text \<open>\<^verbatim>\<open>interface ProductMessage\<close>: a row decorated with the two display names.\<close>

record ProductMessage = message_row +
  sender_name :: string
  recipient_name :: string

text \<open>The row joined with its two users, as the decorating query of the product
  subscription selects it; a joined user may be missing, and so may its name.\<close>

record user_ref =
  user_id :: string
  user_name :: "string option"

record message_with_users = message_row +
  sender :: "user_ref option"
  recipient :: "user_ref option"





subsection \<open>Errors and backend calls\<close>

datatype svc_error =
    NotConfigured
  | BackendError string
  | InvalidSender
  | EmptyContent

text \<open>\<^verbatim>\<open>err.message || fallback\<close>: the text an error carries, or the fallback when that
  text is empty.\<close>

fun error_message :: "svc_error \<Rightarrow> string" where
  "error_message NotConfigured =
     ''Supabase is not properly configured. Please check your environment variables:'' @
     [CHR 0x0A] @ ''- VITE_SUPABASE_URL'' @ [CHR 0x0A] @
     ''- VITE_SUPABASE_ANON_KEY'' @ [CHR 0x0A, CHR 0x0A] @
     ''You can find these values in your Supabase project dashboard under Project Settings -> API''"
| "error_message (BackendError s) = s"
| "error_message InvalidSender = ''InvalidSender''"
| "error_message EmptyContent = ''EmptyContent''"

definition message_or :: "svc_error \<Rightarrow> string \<Rightarrow> string" where
  "message_or e fallback = (if error_message e = [] then fallback else error_message e)"

text \<open>A string used as a condition: \<^verbatim>\<open>null\<close> and the empty string are falsy.\<close>

definition falsy :: "string option \<Rightarrow> bool" where
  "falsy s = (case s of None \<Rightarrow> True | Some t \<Rightarrow> t = [])"

text \<open>
  \<^verbatim>\<open>String.prototype.trim\<close> removes white space at both ends. Characters of the model
  are the code units below 256, of which tab, line feed, vertical tab, form feed, carriage
  return, space and no-break space are white space.
\<close>

definition is_js_space :: "char \<Rightarrow> bool" where
  "is_js_space c = ((of_char c :: nat) \<in> {9, 10, 11, 12, 13, 32, 160})"

definition trim :: "string \<Rightarrow> string" where
  "trim s = rev (dropWhile is_js_space (rev (dropWhile is_js_space s)))"

text \<open>\<^verbatim>\<open>checkSupabaseConfig\<close> throws when \<^verbatim>\<open>isSupabaseConfigured()\<close> is false; the
  flag is that function's value.\<close>

definition checkSupabaseConfig :: "bool \<Rightarrow> svc_error + unit" where
  "checkSupabaseConfig configured = (if configured then Inr () else Inl NotConfigured)"

text \<open>
  What \<^verbatim>\<open>await supabase.rpc(...)\<close> comes back with: the call throws, or it yields
  \<^verbatim>\<open>{ data, error }\<close>, either of which may be \<^verbatim>\<open>null\<close>. Every wrapper then does
  \<^verbatim>\<open>if (error) throw error\<close>.
\<close>

datatype 'a rpc_outcome = Threw svc_error | Replied "'a option" "svc_error option"

fun data_or_throw :: "'a rpc_outcome \<Rightarrow> svc_error + 'a option" where
  "data_or_throw (Threw e) = Inl e"
| "data_or_throw (Replied d (Some e)) = Inl e"
| "data_or_throw (Replied d None) = Inr d"

subsection \<open>The message service\<close>



definition getProductMessages ::
  "bool \<Rightarrow> ProductMessage list rpc_outcome \<Rightarrow> svc_error + ProductMessage list" where
  "getProductMessages configured rpc =
     (case checkSupabaseConfig configured of
        Inl e \<Rightarrow> Inl e
      | Inr _ \<Rightarrow>
          (case data_or_throw rpc of
             Inl e \<Rightarrow> Inl e
           | Inr None \<Rightarrow> Inr []
           | Inr (Some data) \<Rightarrow> Inr data))"

text \<open>
  The two writing wrappers reach the backend, whose state \<open>'st\<close> the call may change; the
  procedure is the parameter \<open>rpc\<close>, applied to the arguments the wrapper passes
  (\<^verbatim>\<open>p_content\<close> is \<^verbatim>\<open>content.trim()\<close>). When the configuration check throws, the
  backend is not called. The \<^verbatim>\<open>catch\<close> logs and rethrows.
\<close>

definition sendProductMessage ::
  "bool \<Rightarrow> (string \<Rightarrow> string \<Rightarrow> string \<Rightarrow> 'st \<Rightarrow> 'a rpc_outcome \<times> 'st) \<Rightarrow>
   string \<Rightarrow> string \<Rightarrow> string \<Rightarrow> 'st \<Rightarrow> (svc_error + 'a option) \<times> 'st" where
  "sendProductMessage configured rpc productId recipientId content_text st =
     (case checkSupabaseConfig configured of
        Inl e \<Rightarrow> (Inl e, st)
      | Inr _ \<Rightarrow>
          (case rpc productId recipientId (trim content_text) st of
             (outcome, st') \<Rightarrow> (data_or_throw outcome, st')))"

definition markMessagesAsRead ::
  "bool \<Rightarrow> (string \<Rightarrow> string \<Rightarrow> 'st \<Rightarrow> unit rpc_outcome \<times> 'st) \<Rightarrow>
   string \<Rightarrow> string \<Rightarrow> 'st \<Rightarrow> (svc_error + unit) \<times> 'st" where
  "markMessagesAsRead configured rpc productId senderId st =
     (case checkSupabaseConfig configured of
        Inl e \<Rightarrow> (Inl e, st)
      | Inr _ \<Rightarrow>
          (case rpc productId senderId st of
             (outcome, st') \<Rightarrow>
               (case data_or_throw outcome of Inl e \<Rightarrow> (Inl e, st') | Inr _ \<Rightarrow> (Inr (), st'))))"

text \<open>\<^verbatim>\<open>getUnreadMessageCount\<close> is the one wrapper whose \<^verbatim>\<open>catch\<close> returns a value
  instead of rethrowing; \<^verbatim>\<open>data || 0\<close> turns \<^verbatim>\<open>null\<close> into 0.\<close>

definition unread_count_body :: "bool \<Rightarrow> int rpc_outcome \<Rightarrow> svc_error + int" where
  "unread_count_body configured rpc =
     (case checkSupabaseConfig configured of
        Inl e \<Rightarrow> Inl e
      | Inr _ \<Rightarrow>
          (case data_or_throw rpc of
             Inl e \<Rightarrow> Inl e
           | Inr None \<Rightarrow> Inr 0
           | Inr (Some n) \<Rightarrow> Inr n))"

definition getUnreadMessageCount :: "bool \<Rightarrow> int rpc_outcome \<Rightarrow> svc_error + int" where
  "getUnreadMessageCount configured rpc =
     (case unread_count_body configured rpc of Inl e \<Rightarrow> Inr 0 | Inr n \<Rightarrow> Inr n)"

subsection \<open>The JavaScript \<^verbatim>\<open>Map\<close>\<close>

text \<open>
  A \<^verbatim>\<open>Map\<close> iterates in insertion order, and \<^verbatim>\<open>set\<close> on a key that is present
  replaces the value where the key already stands. An association list with one entry
  per key keeps both.
\<close>

type_synonym ('k, 'v) js_map = "('k \<times> 'v) list"

fun map_set :: "('k, 'v) js_map \<Rightarrow> 'k \<Rightarrow> 'v \<Rightarrow> ('k, 'v) js_map" where
  "map_set [] k v = [(k, v)]"
| "map_set ((k', v') # m) k v =
     (if k' = k then (k, v) # m else (k', v') # map_set m k v)"

definition map_has :: "('k, 'v) js_map \<Rightarrow> 'k \<Rightarrow> bool" where
  "map_has m k = (k \<in> set (map fst m))"

definition map_get :: "('k, 'v) js_map \<Rightarrow> 'k \<Rightarrow> 'v option" where
  "map_get m k = map_of m k"

definition map_values :: "('k, 'v) js_map \<Rightarrow> 'v list" where
  "map_values m = map snd m"

subsection \<open>The per-thread message cache of \<^verbatim>\<open>useProductMessages\<close>\<close>

text \<open>
  \<^verbatim>\<open>Array.prototype.sort\<close> is stable, and the comparator is the difference of the two
  \<^verbatim>\<open>getTime()\<close> values: a stable sort on the key \<open>created_time\<close>, which is what
  \<^const>\<open>sort_key\<close> is. Two messages created within one millisecond compare equal and
  keep the order they had.
\<close>

definition sort_by_created_at :: "ProductMessage list \<Rightarrow> ProductMessage list" where
  "sort_by_created_at xs = sort_key created_time xs"

text \<open>The bulk path: \<^verbatim>\<open>uniqueMessages.set(msg.id, msg)\<close> for each fetched row, then
  the values, sorted.\<close>

definition uniqueMessages :: "ProductMessage list \<Rightarrow> (string, ProductMessage) js_map" where
  "uniqueMessages data = foldl (\<lambda>m msg. map_set m (msg_id msg) msg) [] data"

definition fetched_messages :: "ProductMessage list \<Rightarrow> ProductMessage list" where
  "fetched_messages data = sort_by_created_at (map_values (uniqueMessages data))"

text \<open>The push path: the updater handed to \<^verbatim>\<open>setMessages\<close> by the subscription
  callback.\<close>

definition push_message :: "ProductMessage list \<Rightarrow> ProductMessage \<Rightarrow> ProductMessage list" where
  "push_message prev newMessage =
     (if list_ex (\<lambda>msg. msg_id msg = msg_id newMessage) prev then prev
      else sort_by_created_at (prev @ [newMessage]))"

text \<open>
  The hook's React state. \<^verbatim>\<open>fetchMessages\<close> clears the cache when no thread is
  selected; otherwise it replaces the cache by the fetched rows, and on a failed fetch it
  leaves the cache as it was and records the error. After the cache is set, the thread is
  marked as read when a user is signed in; a failure there lands in the same
  \<^verbatim>\<open>catch\<close>. \<open>fetched\<close> and \<open>marked\<close> are the results of the two service calls.
\<close>

record hook_state =
  loading :: bool
  error :: "string option"

record messages_state = hook_state +
  messages :: "ProductMessage list"

definition fetchMessages ::
  "string option \<Rightarrow> string option \<Rightarrow> string option \<Rightarrow>
   (svc_error + ProductMessage list) \<Rightarrow> (svc_error + unit) \<Rightarrow>
   messages_state \<Rightarrow> messages_state" where
  "fetchMessages productId otherUserId user fetched marked st =
     (if falsy productId \<or> falsy otherUserId then st\<lparr>messages := [], loading := False\<rparr>
      else
        (case fetched of
           Inl err \<Rightarrow>
             st\<lparr>error := Some (message_or err ''Failed to fetch messages''), loading := False\<rparr>
         | Inr data \<Rightarrow>
             (case (if user = None then Inr () else marked) of
                Inl err \<Rightarrow>
                  st\<lparr>messages := fetched_messages data,
                     error := Some (message_or err ''Failed to fetch messages''),
                     loading := False\<rparr>
              | Inr _ \<Rightarrow>
                  st\<lparr>messages := fetched_messages data, error := None, loading := False\<rparr>)))"

text \<open>What can happen to the cache of an open thread: a fetch that came back with rows, a
  fetch with no thread selected, or a pushed message.\<close>

datatype cache_event = Fetched "ProductMessage list" | Cleared | Pushed ProductMessage

fun cache_step :: "ProductMessage list \<Rightarrow> cache_event \<Rightarrow> ProductMessage list" where
  "cache_step prev (Fetched data) = fetched_messages data"
| "cache_step prev Cleared = []"
| "cache_step prev (Pushed m) = push_message prev m"

definition cache_run :: "cache_event list \<Rightarrow> ProductMessage list" where
  "cache_run evs = foldl cache_step [] evs"

text \<open>
  \<^verbatim>\<open>sendMessage\<close>, the send the hook exposes to the page: with no thread, no user or
  content that is blank after trimming it returns \<^verbatim>\<open>undefined\<close> at once (here
  \<open>Inr None\<close>) and calls nothing; otherwise it returns what the service returns, and on
  an error records the message and rethrows.
\<close>

definition sendMessage ::
  "string option \<Rightarrow> string option \<Rightarrow> string option \<Rightarrow> bool \<Rightarrow>
   (string \<Rightarrow> string \<Rightarrow> string \<Rightarrow> 'st \<Rightarrow> 'a rpc_outcome \<times> 'st) \<Rightarrow> string \<Rightarrow>
   messages_state \<times> 'st \<Rightarrow> (svc_error + 'a option) \<times> messages_state \<times> 'st" where
  "sendMessage productId otherUserId user configured rpc content_text = (\<lambda>(st, backend).
     (case (productId, otherUserId) of
        (Some p, Some other) \<Rightarrow>
          (if p = [] \<or> other = [] \<or> user = None \<or> trim content_text = []
           then (Inr None, st, backend)
           else
             (case sendProductMessage configured rpc p other content_text backend of
                (Inl err, backend') \<Rightarrow>
                  (Inl err, st\<lparr>error := Some (message_or err ''Failed to send message'')\<rparr>,
                   backend')
              | (Inr result, backend') \<Rightarrow> (Inr result, st, backend')))
      | _ \<Rightarrow> (Inr None, st, backend)))"

subsection \<open>The conversation list of \<^verbatim>\<open>useConversations\<close>\<close>









subsection \<open>Realtime subscriptions\<close>

text \<open>
  A change event of the \<^verbatim>\<open>messages\<close> table with its new row (\<^verbatim>\<open>payload.new\<close>),
  and the two scopes a channel is opened with: every change whose sender or recipient is
  a user (\<^verbatim>\<open>or(sender_id.eq.U,recipient_id.eq.U)\<close>, event \<^verbatim>\<open>*\<close>), or the inserts
  of one product (\<^verbatim>\<open>product_id=eq.P\<close>, event \<^verbatim>\<open>INSERT\<close>) narrowed by the handler
  to one counterparty.
\<close>

datatype change_kind = INSERT | UPDATE | DELETE

record change =
  kind :: change_kind
  new_row :: message_row

datatype scope = UserMessages string | ProductMessages string string

record 'cb channel =
  ref :: nat
  topic :: string
  scope :: scope
  callback :: 'cb

record 'cb realtime =
  channels :: "'cb channel list"
  next_ref :: nat

text \<open>What a subscribe call returns: the joined channel, or the literal
  \<^verbatim>\<open>{ unsubscribe: () => {} }\<close> of the \<^verbatim>\<open>catch\<close> branch.\<close>

datatype subscription = Subscription nat | NoopHandle

definition join_channel ::
  "string \<Rightarrow> scope \<Rightarrow> 'cb \<Rightarrow> 'cb realtime \<Rightarrow> subscription \<times> 'cb realtime" where
  "join_channel t sc cb rt =
     (Subscription (next_ref rt),
      rt\<lparr>channels := channels rt @ [\<lparr>ref = next_ref rt, topic = t, scope = sc, callback = cb\<rparr>],
         next_ref := Suc (next_ref rt)\<rparr>)"

text \<open>
  Both subscribe functions run \<^verbatim>\<open>checkSupabaseConfig()\<close> and then
  \<^verbatim>\<open>supabase.channel(..).on(..).subscribe()\<close> inside one \<^verbatim>\<open>try\<close>; \<open>transport\<close>
  is the outcome of that chain (\<open>Inl\<close>: it threw). Whatever is thrown is caught and
  answered with the no-op handle.
\<close>

definition subscribeToUserMessages ::
  "bool \<Rightarrow> (svc_error + unit) \<Rightarrow> string \<Rightarrow> 'cb \<Rightarrow> 'cb realtime \<Rightarrow>
   subscription \<times> 'cb realtime" where
  "subscribeToUserMessages configured transport userId cb rt =
     (case checkSupabaseConfig configured of
        Inl e \<Rightarrow> (NoopHandle, rt)
      | Inr _ \<Rightarrow>
          (case transport of
             Inl e \<Rightarrow> (NoopHandle, rt)
           | Inr _ \<Rightarrow> join_channel ''user-messages'' (UserMessages userId) cb rt))"

definition subscribeToProductMessages ::
  "bool \<Rightarrow> (svc_error + unit) \<Rightarrow> string \<Rightarrow> string \<Rightarrow> 'cb \<Rightarrow> 'cb realtime \<Rightarrow>
   subscription \<times> 'cb realtime" where
  "subscribeToProductMessages configured transport productId otherUserId cb rt =
     (case checkSupabaseConfig configured of
        Inl e \<Rightarrow> (NoopHandle, rt)
      | Inr _ \<Rightarrow>
          (case transport of
             Inl e \<Rightarrow> (NoopHandle, rt)
           | Inr _ \<Rightarrow>
               join_channel (''product-messages-'' @ productId)
                 (ProductMessages productId otherUserId) cb rt))"

fun unsubscribe :: "subscription \<Rightarrow> 'cb realtime \<Rightarrow> svc_error + 'cb realtime" where
  "unsubscribe NoopHandle rt = Inr rt"
| "unsubscribe (Subscription r) rt =
     Inr (rt\<lparr>channels := filter (\<lambda>c. ref c \<noteq> r) (channels rt)\<rparr>)"

text \<open>
  The handler of the product subscription. \<open>user\<close> is what \<^verbatim>\<open>getCurrentUser()\<close>
  resolves to when the event arrives, \<open>fetch_message\<close> the decorating query
  (\<^verbatim>\<open>select ... eq('id', newMessage.id).single()\<close>, \<open>None\<close> when it yields no data).
  The result is the argument the callback is called with, or \<open>None\<close> when the callback
  is not called.
\<close>

definition name_or_unknown :: "user_ref option \<Rightarrow> string" where
  "name_or_unknown u =
     (case u of
        None \<Rightarrow> ''Unknown''
      | Some r \<Rightarrow>
          (case user_name r of
             None \<Rightarrow> ''Unknown''
           | Some n \<Rightarrow> if n = [] then ''Unknown'' else n))"

definition decorated :: "message_with_users \<Rightarrow> ProductMessage" where
  "decorated m =
     \<lparr> msg_id = msg_id m, product_id = product_id m, sender_id = sender_id m,
       recipient_id = recipient_id m, content = content m, read_at = read_at m,
       created_at = created_at m,
       sender_name = name_or_unknown (sender m),
       recipient_name = name_or_unknown (recipient m) \<rparr>"

definition on_product_insert ::
  "string option \<Rightarrow> (string \<Rightarrow> message_with_users option) \<Rightarrow> string \<Rightarrow> message_row \<Rightarrow>
   ProductMessage option" where
  "on_product_insert user fetch_message otherUserId newMessage =
     (case user of
        None \<Rightarrow> None
      | Some uid \<Rightarrow>
          (if (sender_id newMessage = uid \<and> recipient_id newMessage = otherUserId) \<or>
              (sender_id newMessage = otherUserId \<and> recipient_id newMessage = uid)
           then
             (case fetch_message (msg_id newMessage) of
                None \<Rightarrow> None
              | Some messageWithUsers \<Rightarrow> Some (decorated messageWithUsers))
           else None))"

text \<open>Which events the server hands to a channel, and whom an event reaches: the
  callback of every channel it passes, with the argument of the call (the callback of a
  user-scoped channel takes none).\<close>

fun scope_admits :: "scope \<Rightarrow> change \<Rightarrow> bool" where
  "scope_admits (UserMessages u) ev =
     (sender_id (new_row ev) = u \<or> recipient_id (new_row ev) = u)"
| "scope_admits (ProductMessages p other) ev =
     (kind ev = INSERT \<and> product_id (new_row ev) = p)"

definition channel_fires ::
  "string option \<Rightarrow> (string \<Rightarrow> message_with_users option) \<Rightarrow> 'cb channel \<Rightarrow> change \<Rightarrow>
   ('cb \<times> ProductMessage option) option" where
  "channel_fires user fetch_message c ev =
     (if scope_admits (scope c) ev then
        (case scope c of
           UserMessages u \<Rightarrow> Some (callback c, None)
         | ProductMessages p other \<Rightarrow>
             (case on_product_insert user fetch_message other (new_row ev) of
                None \<Rightarrow> None
              | Some m \<Rightarrow> Some (callback c, Some m)))
      else None)"

definition deliver ::
  "string option \<Rightarrow> (string \<Rightarrow> message_with_users option) \<Rightarrow> 'cb realtime \<Rightarrow> change \<Rightarrow>
   ('cb \<times> ProductMessage option) list" where
  "deliver user fetch_message rt ev =
     List.map_filter (\<lambda>c. channel_fires user fetch_message c ev) (channels rt)"

subsection \<open>Contacting a seller\<close>

text \<open>\<^verbatim>\<open>handleContactSeller\<close> of the product page: where it sends the visitor. \<open>seller\<close>
  is \<^verbatim>\<open>product?.seller_id\<close>.\<close>

datatype contact_action =
    ToLogin
  | AlertMissingSeller
  | Ignored
  | ToMessages string string

definition handleContactSeller ::
  "string option \<Rightarrow> string option \<Rightarrow> string \<Rightarrow> contact_action" where
  "handleContactSeller user seller productId =
     (case user of
        None \<Rightarrow> ToLogin
      | Some uid \<Rightarrow>
          (if falsy seller then AlertMissingSeller
           else if Some uid = seller then Ignored
           else (case seller of Some s \<Rightarrow> ToMessages productId s | None \<Rightarrow> AlertMissingSeller)))"

subsection \<open>The backend procedures\<close>

text \<open>
  The SQL of the procedures the wrappers call is not among the sources; only their
  TypeScript declarations and their callers are. The store is the list of message rows;
  the signed-in user \<open>uid\<close> (the backend takes it from the session), the clock \<open>now\<close>
  and the fresh identifier \<open>new_id\<close> are arguments.
\<close>

text \<open>Modelled from the spec: the procedure \<^verbatim>\<open>send_product_message\<close>, missing from the
  sources, is the Message Store's \<^verbatim>\<open>append\<close>: it fails with \<^verbatim>\<open>InvalidSender\<close> if
  sender and recipient are equal, with \<^verbatim>\<open>EmptyContent\<close> if the content is blank after
  trimming, and otherwise persists and returns the new message with a server-assigned
  id and timestamp.\<close>

definition send_product_message ::
  "string \<Rightarrow> int \<Rightarrow> string \<Rightarrow> string \<Rightarrow> string \<Rightarrow> string \<Rightarrow> message_row list \<Rightarrow>
   message_row rpc_outcome \<times> message_row list" where
  "send_product_message uid now new_id p_product_id p_recipient_id p_content store =
     (if uid = p_recipient_id then (Replied None (Some InvalidSender), store)
      else if trim p_content = [] then (Replied None (Some EmptyContent), store)
      else
        (let row = \<lparr> msg_id = new_id, product_id = p_product_id, sender_id = uid,
                      recipient_id = p_recipient_id, content = trim p_content,
                      read_at = None, created_at = now \<rparr>
         in (Replied (Some row) None, store @ [row])))"

text \<open>Modelled from the spec: the procedure \<^verbatim>\<open>mark_product_messages_as_read\<close>, missing
  from the sources, is \<^verbatim>\<open>markRead(user_id, other_user_id, product_id)\<close>: a message
  goes from unread to read only when the viewing user is its recipient, within the
  product and counterparty of the thread; \<^verbatim>\<open>read_at\<close> is set once and never moved;
  the result is the number of rows updated.\<close>

definition unread_in_thread :: "string \<Rightarrow> string \<Rightarrow> string \<Rightarrow> message_row \<Rightarrow> bool" where
  "unread_in_thread uid p_product_id p_sender_id r =
     (product_id r = p_product_id \<and> sender_id r = p_sender_id \<and> recipient_id r = uid \<and>
      read_at r = None)"

definition mark_product_messages_as_read ::
  "string \<Rightarrow> int \<Rightarrow> string \<Rightarrow> string \<Rightarrow> message_row list \<Rightarrow> nat \<times> message_row list" where
  "mark_product_messages_as_read uid now p_product_id p_sender_id store =
     (length (filter (unread_in_thread uid p_product_id p_sender_id) store),
      map (\<lambda>r. if unread_in_thread uid p_product_id p_sender_id r
                then r\<lparr>read_at := Some now\<rparr> else r) store)"

text \<open>Modelled from the spec: the procedure \<^verbatim>\<open>get_unread_message_count\<close>, missing from
  the sources, is \<^verbatim>\<open>countUnread(user_id)\<close>: the count across all products and
  counterparties of the messages whose recipient is the user and whose \<^verbatim>\<open>read_at\<close>
  is null.\<close>

definition get_unread_message_count :: "string \<Rightarrow> message_row list \<Rightarrow> int" where
  "get_unread_message_count uid store =
     int (length (filter (\<lambda>r. recipient_id r = uid \<and> read_at r = None) store))"

text \<open>The procedures as the client's wrappers see them: the declared result of
  \<^verbatim>\<open>mark_product_messages_as_read\<close> is \<^verbatim>\<open>void\<close>, so the reply carries no data.\<close>

definition mark_read_rpc ::
  "string \<Rightarrow> int \<Rightarrow> string \<Rightarrow> string \<Rightarrow> message_row list \<Rightarrow>
   unit rpc_outcome \<times> message_row list" where
  "mark_read_rpc uid now p_product_id p_sender_id store =
     (Replied None None, snd (mark_product_messages_as_read uid now p_product_id p_sender_id store))"

definition unread_count_rpc :: "string \<Rightarrow> message_row list \<Rightarrow> int rpc_outcome" where
  "unread_count_rpc uid store = Replied (Some (get_unread_message_count uid store)) None"

subsection \<open>Sample values\<close>

definition sample_message :: "string \<Rightarrow> int \<Rightarrow> int option \<Rightarrow> ProductMessage" where
  "sample_message i t r =
     \<lparr> msg_id = i, product_id = ''P42'', sender_id = ''alice'', recipient_id = ''bob'',
       content = ''Bonjour'', read_at = r, created_at = t,
       sender_name = ''Alice'', recipient_name = ''Bob'' \<rparr>"

definition sample_row :: "string \<Rightarrow> string \<Rightarrow> message_row" where
  "sample_row s r =
     \<lparr> msg_id = ''m1'', product_id = ''P42'', sender_id = s, recipient_id = r,
       content = ''Bonjour'', read_at = None, created_at = 100 \<rparr>"

definition sample_joined :: "user_ref option \<Rightarrow> message_with_users" where
  "sample_joined s =
     \<lparr> msg_id = ''m1'', product_id = ''P42'', sender_id = ''alice'', recipient_id = ''bob'',
       content = ''Bonjour'', read_at = None, created_at = 100,
       sender = s, recipient = Some \<lparr> user_id = ''bob'', user_name = Some ''Bob'' \<rparr> \<rparr>"

definition sample_realtime :: "nat realtime" where
  "sample_realtime =
     \<lparr> channels = [\<lparr> ref = 0, topic = ''user-messages'', scope = UserMessages ''bob'',
                     callback = 7 \<rparr>],
       next_ref = 1 \<rparr>"

definition sample_store :: "message_row list" where
  "sample_store =
     [\<lparr> msg_id = ''m1'', product_id = ''P42'', sender_id = ''alice'', recipient_id = ''bob'',
        content = ''Bonjour'', read_at = None, created_at = 100 \<rparr>,
      \<lparr> msg_id = ''m2'', product_id = ''P42'', sender_id = ''bob'', recipient_id = ''alice'',
        content = ''Salut'', read_at = None, created_at = 110 \<rparr>,
      \<lparr> msg_id = ''m3'', product_id = ''P7'', sender_id = ''alice'', recipient_id = ''bob'',
        content = ''Encore'', read_at = None, created_at = 120 \<rparr>]"

definition sample_hook :: "ProductMessage list \<Rightarrow> messages_state" where
  "sample_hook ms = \<lparr> loading = False, error = None, messages = ms \<rparr>"



text \<open>A backend that accepts and stores whatever content it is sent.\<close>

definition recording_backend ::
  "string \<Rightarrow> string \<Rightarrow> string \<Rightarrow> string list \<Rightarrow> string rpc_outcome \<times> string list" where
  "recording_backend p r c received = (Replied (Some c) None, received @ [c])"

section \<open>Properties\<close>

subsection \<open>The map and the message cache\<close>

lemma map_set_keys: "fst ` set (map_set m k v) = insert k (fst ` set m)"
  by (induction m k v rule: map_set.induct) auto

lemma map_set_entries: "set (map_set m k v) \<subseteq> insert (k, v) (set m)"
  by (induction m k v rule: map_set.induct) auto

lemma map_set_distinct: "distinct (map fst m) \<Longrightarrow> distinct (map fst (map_set m k v))"
proof (induction m k v rule: map_set.induct)
  case (1 k v)
  then show ?case by simp
next
  case (2 k' v' m k v)
  show ?case
  proof (cases "k' = k")
    case True
    then show ?thesis using 2 by simp
  next
    case False
    have "k' \<notin> fst ` set (map_set m k v)"
      using 2(2) False by (simp add: map_set_keys)
    then show ?thesis using 2 False by simp
  qed
qed

lemma map_set_lookup: "map_of (map_set m k v) = (map_of m)(k \<mapsto> v)"
  by (induction m k v rule: map_set.induct) (auto simp: fun_eq_iff)

text \<open>\<^verbatim>\<open>has\<close> answers whether \<^verbatim>\<open>get\<close> finds something.\<close>

lemma map_has_get: "map_has m k = (map_get m k \<noteq> None)"
  by (simp add: map_has_def map_get_def map_of_eq_None_iff)

lemma map_set_values: "set (map snd (map_set m k v)) \<subseteq> insert v (set (map snd m))"
  by (induction m k v rule: map_set.induct) auto

lemma uniq_fold_inv:
  "distinct (map fst m) \<Longrightarrow> (\<forall>(k, v) \<in> set m. msg_id v = k) \<Longrightarrow>
   distinct (map fst (foldl (\<lambda>m msg. map_set m (msg_id msg) msg) m data)) \<and>
   (\<forall>(k, v) \<in> set (foldl (\<lambda>m msg. map_set m (msg_id msg) msg) m data). msg_id v = k)"
proof (induction data arbitrary: m)
  case Nil then show ?case by simp
next
  case (Cons a data)
  have d: "distinct (map fst (map_set m (msg_id a) a))" using Cons.prems(1) by (rule map_set_distinct)
  have k: "\<forall>(k, v) \<in> set (map_set m (msg_id a) a). msg_id v = k"
    using Cons.prems(2) map_set_entries[of m "msg_id a" a] by auto
  show ?case using Cons.IH[OF d k] by simp
qed

lemma uniq_fold_lookup:
  "map_of (foldl (\<lambda>m msg. map_set m (msg_id msg) msg) m data) =
   map_of m ++ map_of (rev (map (\<lambda>x. (msg_id x, x)) data))"
proof (induction data arbitrary: m)
  case Nil then show ?case by simp
next
  case (Cons a data)
  show ?case by (simp add: Cons.IH map_set_lookup map_add_upd_left fun_eq_iff map_add_def split: option.splits)
qed

lemma values_ids: "(\<forall>(k, v) \<in> set m. msg_id v = k) \<Longrightarrow> map (msg_id \<circ> snd) m = map fst m"
  by (induction m) auto

lemma uniqueMessages_distinct: "distinct (map msg_id (map_values (uniqueMessages data)))"
proof -
  have inv: "distinct (map fst (uniqueMessages data)) \<and>
     (\<forall>(k, v) \<in> set (uniqueMessages data). msg_id v = k)"
    unfolding uniqueMessages_def by (rule uniq_fold_inv) simp_all
  then have eq: "map (msg_id \<circ> snd) (uniqueMessages data) = map fst (uniqueMessages data)"
    by (intro values_ids) simp
  have "map msg_id (map_values (uniqueMessages data)) = map (msg_id \<circ> snd) (uniqueMessages data)"
    by (simp add: map_values_def)
  with eq inv show ?thesis by metis
qed

lemma distinct_ids_sort: "distinct (map msg_id (sort_key f xs)) = distinct (map msg_id xs)"
  by (simp add: distinct_map)

lemma fetched_distinct: "distinct (map msg_id (fetched_messages data))"
  by (simp add: fetched_messages_def sort_by_created_at_def distinct_ids_sort uniqueMessages_distinct)



lemma push_distinct: "distinct (map msg_id prev) \<Longrightarrow> distinct (map msg_id (push_message prev m))"
  by (auto simp add: push_message_def sort_by_created_at_def distinct_ids_sort list_ex_iff)

lemma push_present: "list_ex (\<lambda>x. msg_id x = msg_id m) (push_message prev m)"
  by (auto simp add: push_message_def sort_by_created_at_def list_ex_iff)


lemma cache_step_distinct:
  "distinct (map msg_id prev) \<Longrightarrow> distinct (map msg_id (cache_step prev ev))"
  by (cases ev) (simp_all add: fetched_distinct push_distinct)


lemma foldl_cache_distinct:
  "distinct (map msg_id prev) \<Longrightarrow> distinct (map msg_id (foldl cache_step prev evs))"
  by (induction evs arbitrary: prev) (simp_all add: cache_step_distinct)


lemma cache_run_distinct: "distinct (map msg_id (cache_run evs))"
  by (simp add: cache_run_def foldl_cache_distinct)

lemma count_one_if_distinct:
  "distinct (map f xs) \<Longrightarrow> x \<in> set xs \<Longrightarrow> length (filter (\<lambda>y. f y = f x) xs) = 1"
proof (induction xs)
  case Nil then show ?case by simp
next
  case (Cons a xs)
  show ?case
  proof (cases "f a = f x")
    case True
    then have "\<forall>y\<in>set xs. f y \<noteq> f x" using Cons.prems(1) by (auto simp: image_iff)
    then have "filter (\<lambda>y. f y = f x) xs = []" by (simp add: filter_empty_conv)
    with True show ?thesis by simp
  next
    case False
    then have "x \<in> set xs" using Cons.prems(2) by auto
    with Cons False show ?thesis by simp
  qed
qed

lemma uniq_fold_keys:
  "fst ` set (foldl (\<lambda>m msg. map_set m (msg_id msg) msg) m data) = fst ` set m \<union> msg_id ` set data"
  by (induction data arbitrary: m) (auto simp: map_set_keys)

lemma fetched_ids: "msg_id ` set (fetched_messages data) = msg_id ` set data"
proof -
  have inv: "\<forall>(k, v) \<in> set (uniqueMessages data). msg_id v = k"
    unfolding uniqueMessages_def using uniq_fold_inv[of "[]" data] by simp
  have "msg_id ` set (fetched_messages data) = (msg_id \<circ> snd) ` set (uniqueMessages data)"
    by (simp add: fetched_messages_def sort_by_created_at_def map_values_def image_comp)
  also have "\<dots> = fst ` set (uniqueMessages data)"
    using inv by (intro image_cong) auto
  also have "\<dots> = msg_id ` set data"
    unfolding uniqueMessages_def by (simp add: uniq_fold_keys)
  finally show ?thesis .
qed

lemma find_by_id_distinct:
  "distinct (map msg_id xs) \<Longrightarrow>
   (find (\<lambda>x. msg_id x = k) xs = Some x) = (x \<in> set xs \<and> msg_id x = k)"
  by (induction xs) (auto simp: image_iff)

lemma find_as_map_of:
  "find (\<lambda>x. msg_id x = k) xs = map_of (map (\<lambda>x. (msg_id x, x)) xs) k"
  by (induction xs) auto

text \<open>Of the fetched rows that share an id, the one that stays is the last.\<close>

lemma fetched_last_wins:
  "find (\<lambda>x. msg_id x = k) (fetched_messages data) = find (\<lambda>x. msg_id x = k) (rev data)"
proof -
  let ?u = "uniqueMessages data"
  have inv: "distinct (map fst ?u)" "\<forall>(k, v) \<in> set ?u. msg_id v = k"
    unfolding uniqueMessages_def using uniq_fold_inv[of "[]" data] by simp_all
  have look: "map_of ?u k = find (\<lambda>x. msg_id x = k) (rev data)"
    unfolding uniqueMessages_def by (simp add: uniq_fold_lookup find_as_map_of rev_map)
  have mem: "(x \<in> set (fetched_messages data) \<and> msg_id x = k) = (map_of ?u k = Some x)" for x
  proof -
    have "(x \<in> set (fetched_messages data) \<and> msg_id x = k) = ((k, x) \<in> set ?u)"
      using inv(2) by (force simp: fetched_messages_def sort_by_created_at_def map_values_def)
    also have "\<dots> = (map_of ?u k = Some x)"
      using inv(1) by (auto simp: map_of_eq_Some_iff)
    finally show ?thesis .
  qed
  have "(find (\<lambda>x. msg_id x = k) (fetched_messages data) = Some x) =
        (find (\<lambda>x. msg_id x = k) (rev data) = Some x)" for x
    by (simp add: find_by_id_distinct[OF fetched_distinct] mem look)
  then show ?thesis
    by (metis option.exhaust)
qed

text \<open>
  Claim C2, as stated, fails on the bulk path. \<^verbatim>\<open>fetchMessages\<close> replaces the cache
  by the fetched rows, so a cached message whose id comes back in the fetch is
  overwritten by the fetched row: here the cached, unread \<open>m1\<close> gives way to the fetched
  \<open>m1\<close> that carries a \<open>read_at\<close>. Within one fetch, \<^verbatim>\<open>Map.set\<close> likewise lets the
  later row of an id replace the earlier.
\<close>

theorem bulk_fetch_overwrites:
  "messages (fetchMessages (Some ''P42'') (Some ''alice'') (Some ''bob'')
       (Inr [sample_message ''m1'' 100 (Some 150)]) (Inr ())
       (sample_hook [sample_message ''m1'' 100 None])) =
     [sample_message ''m1'' 100 (Some 150)] \<and>
   msg_id (sample_message ''m1'' 100 (Some 150)) = msg_id (sample_message ''m1'' 100 None) \<and>
   [sample_message ''m1'' 100 (Some 150)] \<noteq> messages (sample_hook [sample_message ''m1'' 100 None]) \<and>
   fetched_messages [sample_message ''m1'' 100 None, sample_message ''m1'' 100 (Some 150)] =
     [sample_message ''m1'' 100 (Some 150)]"
  by (simp add: fetchMessages_def falsy_def fetched_messages_def uniqueMessages_def
      map_values_def sort_by_created_at_def sample_hook_def sample_message_def)

text \<open>
  Claim C2, amended. On the push path a message whose id is already in the cache is
  discarded and the cache stays as it is, so pushing a message twice is the same as
  pushing it once, and in a cache with one entry per id (every cache reached by fetches
  and pushes is one) the id then occurs exactly once. On the bulk path the cache is
  replaced by the fetched rows with one entry per id: every fetched id occurs exactly
  once, and of the rows sharing an id the last one fetched is the one kept.
\<close>

theorem cache_dedup:
  "(list_ex (\<lambda>x. msg_id x = msg_id m) prev \<longrightarrow> push_message prev m = prev) \<and>
   push_message (push_message prev m) m = push_message prev m \<and>
   (distinct (map msg_id prev) \<longrightarrow>
      length (filter (\<lambda>x. msg_id x = msg_id m) (push_message (push_message prev m) m)) = 1) \<and>
   distinct (map msg_id (cache_run evs)) \<and>
   distinct (map msg_id (fetched_messages data)) \<and>
   (m \<in> set data \<longrightarrow>
      length (filter (\<lambda>x. msg_id x = msg_id m) (fetched_messages data)) = 1) \<and>
   find (\<lambda>x. msg_id x = k) (fetched_messages data) = find (\<lambda>x. msg_id x = k) (rev data)"
proof (intro conjI impI)
  show "push_message prev m = prev" if "list_ex (\<lambda>x. msg_id x = msg_id m) prev"
    using that by (simp add: push_message_def)
  show twice: "push_message (push_message prev m) m = push_message prev m"
    using push_present[of m prev] by (simp add: push_message_def[of "push_message prev m"])
  show "length (filter (\<lambda>x. msg_id x = msg_id m) (push_message (push_message prev m) m)) = 1"
    if d: "distinct (map msg_id prev)"
  proof -
    obtain x where x: "x \<in> set (push_message prev m)" "msg_id x = msg_id m"
      using push_present[of m prev] by (auto simp: list_ex_iff)
    have "length (filter (\<lambda>y. msg_id y = msg_id x) (push_message prev m)) = 1"
      using push_distinct[OF d] x(1) by (rule count_one_if_distinct)
    then show ?thesis by (simp add: twice x(2))
  qed
  show "distinct (map msg_id (cache_run evs))" by (rule cache_run_distinct)
  show "distinct (map msg_id (fetched_messages data))" by (rule fetched_distinct)
  show "length (filter (\<lambda>x. msg_id x = msg_id m) (fetched_messages data)) = 1"
    if "m \<in> set data"
  proof -
    have "msg_id m \<in> msg_id ` set (fetched_messages data)"
      using that by (simp add: fetched_ids)
    then obtain x where x: "x \<in> set (fetched_messages data)" "msg_id x = msg_id m" by auto
    have "length (filter (\<lambda>y. msg_id y = msg_id x) (fetched_messages data)) = 1"
      using fetched_distinct x(1) by (rule count_one_if_distinct)
    then show ?thesis by (simp add: x(2))
  qed
  show "find (\<lambda>x. msg_id x = k) (fetched_messages data) = find (\<lambda>x. msg_id x = k) (rev data)"
    by (rule fetched_last_wins)
qed

text \<open>The amended claim at a cache that holds \<open>m1\<close> unread, with \<open>m1\<close> pushed again
  carrying a \<open>read_at\<close>, and at a fetch that returns \<open>m1\<close> twice.\<close>

theorem cache_dedup_witness:
  "list_ex (\<lambda>x. msg_id x = msg_id (sample_message ''m1'' 100 (Some 150)))
     [sample_message ''m1'' 100 None] \<and>
   push_message [sample_message ''m1'' 100 None] (sample_message ''m1'' 100 (Some 150)) =
     [sample_message ''m1'' 100 None] \<and>
   distinct (map msg_id [sample_message ''m1'' 100 None]) \<and>
   length (filter (\<lambda>x. msg_id x = ''m1'')
     (push_message
        (push_message [sample_message ''m1'' 100 None] (sample_message ''m1'' 100 (Some 150)))
        (sample_message ''m1'' 100 (Some 150)))) = 1 \<and>
   length (filter (\<lambda>x. msg_id x = ''m1'')
     (fetched_messages [sample_message ''m1'' 100 (Some 150), sample_message ''m1'' 100 None])) = 1"
  using cache_dedup
    [of "sample_message ''m1'' 100 (Some 150)" "[sample_message ''m1'' 100 None]" "[]"
        "[sample_message ''m1'' 100 (Some 150), sample_message ''m1'' 100 None]" "''m1''"]
  by (simp add: sample_message_def)














subsection \<open>The conversation list\<close>





















subsection \<open>Realtime delivery\<close>

lemma pair_matches_iff:
  "({s, r} = {u, other}) = ((s = u \<and> r = other) \<or> (s = other \<and> r = u))"
  by (auto simp: doubleton_eq_iff)

lemma on_product_insert_Some:
  "on_product_insert user fetch_message other row = Some m \<Longrightarrow>
   \<exists>u. user = Some u \<and> {sender_id row, recipient_id row} = {u, other}"
  by (auto simp: on_product_insert_def pair_matches_iff split: option.splits if_splits)

lemma deliver_callbacks:
  "(cb, arg) \<in> set (deliver user fetch_message rt ev) \<Longrightarrow> cb \<in> callback ` set (channels rt)"
  by (auto simp: deliver_def List.map_filter_def channel_fires_def image_iff
      split: if_splits scope.splits option.splits)

text \<open>
  Claim C1. The handler of the product subscription calls the callback only if the
  event's sender and recipient are exactly the current user and the counterparty the
  subscription was opened for; an event whose pair is another one is not delivered. So
  whatever a channel opened by \<^verbatim>\<open>subscribeToProductMessages\<close> delivers is an event of
  that product between these two users.
\<close>

theorem product_subscription_filter:
  "(on_product_insert user fetch_message otherUserId newMessage = Some m \<longrightarrow>
      (\<exists>u. user = Some u \<and>
           {sender_id newMessage, recipient_id newMessage} = {u, otherUserId})) \<and>
   (user = Some u \<and> {sender_id newMessage, recipient_id newMessage} \<noteq> {u, otherUserId} \<longrightarrow>
      on_product_insert user fetch_message otherUserId newMessage = None) \<and>
   (subscribeToProductMessages configured transport productId otherUserId cb
        \<lparr> channels = [], next_ref = n \<rparr> = (handle, rt) \<and>
    (cb', arg) \<in> set (deliver (Some u) fetch_message rt ev) \<longrightarrow>
      cb' = cb \<and> product_id (new_row ev) = productId \<and>
      {sender_id (new_row ev), recipient_id (new_row ev)} = {u, otherUserId})"
proof (intro conjI impI)
  show "\<exists>u. user = Some u \<and> {sender_id newMessage, recipient_id newMessage} = {u, otherUserId}"
    if "on_product_insert user fetch_message otherUserId newMessage = Some m"
    using that by (rule on_product_insert_Some)
  show "on_product_insert user fetch_message otherUserId newMessage = None"
    if "user = Some u \<and> {sender_id newMessage, recipient_id newMessage} \<noteq> {u, otherUserId}"
    using that by (auto simp: on_product_insert_def pair_matches_iff)
  assume a: "subscribeToProductMessages configured transport productId otherUserId cb
        \<lparr> channels = [], next_ref = n \<rparr> = (handle, rt) \<and>
    (cb', arg) \<in> set (deliver (Some u) fetch_message rt ev)"
  then have ch: "channels rt = [] \<or> channels rt =
      [\<lparr>ref = n, topic = ''product-messages-'' @ productId,
        scope = ProductMessages productId otherUserId, callback = cb\<rparr>]"
    by (auto simp: subscribeToProductMessages_def join_channel_def split: sum.splits)
  from a have "(cb', arg) \<in> set (deliver (Some u) fetch_message rt ev)" by simp
  with ch have fires: "channel_fires (Some u) fetch_message
      \<lparr>ref = n, topic = ''product-messages-'' @ productId,
        scope = ProductMessages productId otherUserId, callback = cb\<rparr> ev = Some (cb', arg)"
    by (auto simp: deliver_def List.map_filter_def split: option.splits)
  then obtain msg
    where m: "on_product_insert (Some u) fetch_message otherUserId (new_row ev) = Some msg"
      and rest: "cb' = cb" "product_id (new_row ev) = productId"
    by (auto simp: channel_fires_def split: if_splits option.splits)
  from on_product_insert_Some[OF m]
  have "{sender_id (new_row ev), recipient_id (new_row ev)} = {u, otherUserId}" by simp
  with rest show "cb' = cb" "product_id (new_row ev) = productId"
    "{sender_id (new_row ev), recipient_id (new_row ev)} = {u, otherUserId}" by simp_all
qed

text \<open>Bob has the thread with Alice on product P42 open: Alice's message reaches his
  callback, Carol's message on the same product does not.\<close>

theorem product_subscription_filter_witness:
  "on_product_insert (Some ''bob'') (\<lambda>i. Some (sample_joined None)) ''alice''
     (sample_row ''alice'' ''bob'') = Some (decorated (sample_joined None)) \<and>
   {sender_id (sample_row ''alice'' ''bob''), recipient_id (sample_row ''alice'' ''bob'')} =
     {''bob'', ''alice''} \<and>
   {sender_id (sample_row ''carol'' ''bob''), recipient_id (sample_row ''carol'' ''bob'')} \<noteq>
     {''bob'', ''alice''} \<and>
   on_product_insert (Some ''bob'') (\<lambda>i. Some (sample_joined None)) ''alice''
     (sample_row ''carol'' ''bob'') = None \<and>
   deliver (Some ''bob'') (\<lambda>i. Some (sample_joined None))
     (snd (subscribeToProductMessages True (Inr ()) ''P42'' ''alice'' (5::nat)
        \<lparr> channels = [], next_ref = 0 \<rparr>))
     \<lparr> kind = INSERT, new_row = sample_row ''alice'' ''bob'' \<rparr> =
     [(5, Some (decorated (sample_joined None)))]"
  using product_subscription_filter
    [of "Some ''bob''" "\<lambda>i. Some (sample_joined None)" "''alice''" "sample_row ''alice'' ''bob''"
        "decorated (sample_joined None)" "''bob''" True "Inr ()" "''P42''" "5::nat" 0
        "Subscription 0"
        "snd (subscribeToProductMessages True (Inr ()) ''P42'' ''alice'' (5::nat)
           \<lparr> channels = [], next_ref = 0 \<rparr>)"
        5 "Some (decorated (sample_joined None))"
        "\<lparr> kind = INSERT, new_row = sample_row ''alice'' ''bob'' \<rparr>"]
    product_subscription_filter
    [of "Some ''bob''" "\<lambda>i. Some (sample_joined None)" "''alice''" "sample_row ''carol'' ''bob''"
        "decorated (sample_joined None)" "''bob''" True "Inr ()" "''P42''" "5::nat" 0
        "Subscription 0"
        "snd (subscribeToProductMessages True (Inr ()) ''P42'' ''alice'' (5::nat)
           \<lparr> channels = [], next_ref = 0 \<rparr>)"
        5 "Some (decorated (sample_joined None))"
        "\<lparr> kind = INSERT, new_row = sample_row ''alice'' ''bob'' \<rparr>"]
  by (simp add: on_product_insert_def sample_row_def sample_joined_def doubleton_eq_iff
      subscribeToProductMessages_def checkSupabaseConfig_def join_channel_def deliver_def
      List.map_filter_def channel_fires_def)

text \<open>
  Claim C7. When the set-up of a subscription fails, that is, when the configuration
  check or the channel chain throws, both subscribe functions return the no-op handle
  instead of an error and register no channel; unsubscribing that handle succeeds and
  changes nothing; and the callback that was handed over, registered nowhere else, is
  called for no event.
\<close>

theorem failed_subscription_is_noop:
  "(\<not> configured \<or> transport = Inl e \<longrightarrow>
      subscribeToUserMessages configured transport userId cb rt = (NoopHandle, rt) \<and>
      subscribeToProductMessages configured transport productId otherUserId cb rt =
        (NoopHandle, rt)) \<and>
   unsubscribe NoopHandle rt = Inr rt \<and>
   (\<not> configured \<or> transport = Inl e \<longrightarrow>
      cb \<notin> callback ` set (channels rt) \<longrightarrow>
      (\<forall>ev user fetch_message arg.
         (cb, arg) \<notin> set (deliver user fetch_message
             (snd (subscribeToUserMessages configured transport userId cb rt)) ev) \<and>
         (cb, arg) \<notin> set (deliver user fetch_message
             (snd (subscribeToProductMessages configured transport productId otherUserId cb rt))
             ev)))"
proof (intro conjI impI allI)
  assume f: "\<not> configured \<or> transport = Inl e"
  then show u: "subscribeToUserMessages configured transport userId cb rt = (NoopHandle, rt)"
    by (auto simp: subscribeToUserMessages_def checkSupabaseConfig_def)
  from f show p: "subscribeToProductMessages configured transport productId otherUserId cb rt =
        (NoopHandle, rt)"
    by (auto simp: subscribeToProductMessages_def checkSupabaseConfig_def)
  fix ev user fetch_message arg
  assume fresh: "cb \<notin> callback ` set (channels rt)"
  show "(cb, arg) \<notin> set (deliver user fetch_message
          (snd (subscribeToUserMessages configured transport userId cb rt)) ev)"
    using fresh deliver_callbacks[of cb arg user fetch_message rt ev] by (auto simp: u)
  show "(cb, arg) \<notin> set (deliver user fetch_message
          (snd (subscribeToProductMessages configured transport productId otherUserId cb rt)) ev)"
    using fresh deliver_callbacks[of cb arg user fetch_message rt ev] by (auto simp: p)
next
  show "unsubscribe NoopHandle rt = Inr rt" by simp
qed

text \<open>An unconfigured client and a transport that throws, beside one live channel whose
  callback is 7: the new callback 3 gets the no-op handle, and an event reaches 7 only.\<close>

theorem failed_subscription_is_noop_witness:
  "subscribeToUserMessages False (Inr ()) ''alice'' (3::nat) sample_realtime =
     (NoopHandle, sample_realtime) \<and>
   subscribeToProductMessages True (Inl (BackendError ''offline'')) ''P42'' ''bob'' (3::nat)
     sample_realtime = (NoopHandle, sample_realtime) \<and>
   unsubscribe NoopHandle sample_realtime = Inr sample_realtime \<and>
   (3::nat) \<notin> callback ` set (channels sample_realtime) \<and>
   deliver (Some ''alice'') (\<lambda>i. None)
     (snd (subscribeToUserMessages False (Inr ()) ''alice'' (3::nat) sample_realtime))
     \<lparr> kind = INSERT, new_row = sample_row ''bob'' ''alice'' \<rparr> = [(7, None)]"
  using failed_subscription_is_noop
      [of False "Inr ()" "BackendError ''offline''" "''alice''" "3::nat" sample_realtime
          "''P42''" "''bob''"]
    failed_subscription_is_noop
      [of True "Inl (BackendError ''offline'')" "BackendError ''offline''" "''alice''" "3::nat"
          sample_realtime "''P42''" "''bob''"]
  by (simp add: sample_realtime_def deliver_def List.map_filter_def channel_fires_def
      sample_row_def)

text \<open>
  Claim C8, as stated, fails when the decorating query yields no data: the event has
  passed the filter (it is Alice's message to Bob, in Bob's thread with Alice), and the
  callback is not called.
\<close>

theorem decoration_failure_drops_event:
  "on_product_insert (Some ''bob'') (\<lambda>i. None) ''alice'' (sample_row ''alice'' ''bob'') = None \<and>
   {sender_id (sample_row ''alice'' ''bob''), recipient_id (sample_row ''alice'' ''bob'')} =
     {''bob'', ''alice''}"
  by (auto simp: on_product_insert_def sample_row_def)

text \<open>
  Claim C8, amended. For every event that passes the filter and whose decorating query
  returns the row, the callback is called with the decorated message: the fields of the
  row, and for each of the two names the joined user's name, or \<open>Unknown\<close> when the user
  is missing or its name is missing or empty. When the decorating query returns nothing,
  the callback is not called.
\<close>

theorem delivered_message_decorated:
  "(user = Some u \<and> {sender_id newMessage, recipient_id newMessage} = {u, otherUserId} \<and>
    fetch_message (msg_id newMessage) = Some joined \<longrightarrow>
      on_product_insert user fetch_message otherUserId newMessage = Some (decorated joined) \<and>
      msg_id (decorated joined) = msg_id joined \<and>
      product_id (decorated joined) = product_id joined \<and>
      sender_id (decorated joined) = sender_id joined \<and>
      recipient_id (decorated joined) = recipient_id joined \<and>
      content (decorated joined) = content joined \<and>
      read_at (decorated joined) = read_at joined \<and>
      created_at (decorated joined) = created_at joined \<and>
      sender_name (decorated joined) = name_or_unknown (sender joined) \<and>
      recipient_name (decorated joined) = name_or_unknown (recipient joined)) \<and>
   name_or_unknown None = ''Unknown'' \<and>
   name_or_unknown (Some \<lparr> user_id = i, user_name = None \<rparr>) = ''Unknown'' \<and>
   name_or_unknown (Some \<lparr> user_id = i, user_name = Some [] \<rparr>) = ''Unknown'' \<and>
   (name \<noteq> [] \<longrightarrow> name_or_unknown (Some \<lparr> user_id = i, user_name = Some name \<rparr>) = name) \<and>
   (fetch_message (msg_id newMessage) = None \<longrightarrow>
      on_product_insert user fetch_message otherUserId newMessage = None)"
  by (auto simp: on_product_insert_def pair_matches_iff decorated_def name_or_unknown_def
      split: option.splits)

text \<open>Alice's message to Bob with the sender's join missing: delivered, the sender shown
  as \<open>Unknown\<close>; with the query yielding nothing: not delivered.\<close>

theorem delivered_message_decorated_witness:
  "{sender_id (sample_row ''alice'' ''bob''), recipient_id (sample_row ''alice'' ''bob'')} =
     {''bob'', ''alice''} \<and>
   on_product_insert (Some ''bob'') (\<lambda>i. Some (sample_joined None)) ''alice''
     (sample_row ''alice'' ''bob'') = Some (decorated (sample_joined None)) \<and>
   sender_name (decorated (sample_joined None)) = ''Unknown'' \<and>
   recipient_name (decorated (sample_joined None)) = ''Bob'' \<and>
   on_product_insert (Some ''bob'') (\<lambda>i. None) ''alice'' (sample_row ''alice'' ''bob'') = None"
  using delivered_message_decorated
    [of "Some ''bob''" "''bob''" "sample_row ''alice'' ''bob''" "''alice''"
        "\<lambda>i. Some (sample_joined None)" "sample_joined None" "''b''" "''Bob''"]
    delivered_message_decorated
    [of "Some ''bob''" "''bob''" "sample_row ''alice'' ''bob''" "''alice''"
        "\<lambda>i. None" "sample_joined None" "''bob''" "''Bob''"]
  by (simp add: sample_row_def sample_joined_def doubleton_eq_iff)

subsection \<open>Sending\<close>

text \<open>
  Claim C4. Sending to oneself is rejected with \<open>InvalidSender\<close> and the store is left
  as it was, for every user, product and content: by the backend procedure itself, and
  through the service wrapper of a configured client, which hands the error on. (A
  client that is not configured fails before it reaches the backend, and stores nothing
  either; and the product page never leads a seller to a thread with themselves.)
\<close>

theorem send_to_self_rejected:
  "send_product_message x now new_id productId x content_text store =
     (Replied None (Some InvalidSender), store) \<and>
   sendProductMessage True (send_product_message x now new_id) productId x content_text store =
     (Inl InvalidSender, store) \<and>
   snd (sendProductMessage False (send_product_message x now new_id) productId x content_text
     store) = store \<and>
   isl (fst (sendProductMessage False (send_product_message x now new_id) productId x
     content_text store)) \<and>
   handleContactSeller (Some x) (Some x) productId \<noteq> ToMessages productId x"
  by (auto simp: send_product_message_def sendProductMessage_def checkSupabaseConfig_def
      handleContactSeller_def falsy_def)

lemma trim_blank: "trim ''   '' = []"
  by (simp add: trim_def is_js_space_def)

text \<open>
  Claim C5, as stated, fails: the send the hook exposes, called with three spaces,
  returns without a result and without an error, so it does not fail with
  \<open>EmptyContent\<close>. (The backend here would have accepted the content; it is not called.)
\<close>

theorem blank_send_returns_silently:
  "sendMessage (Some ''P42'') (Some ''bob'') (Some ''alice'') True recording_backend ''   ''
     (sample_hook [], []) = (Inr None, sample_hook [], []) \<and>
   trim ''   '' = [] \<and>
   fst (sendMessage (Some ''P42'') (Some ''bob'') (Some ''alice'') True recording_backend ''   ''
     (sample_hook [], [])) \<noteq> Inl EmptyContent"
  by (simp add: sendMessage_def trim_blank)

text \<open>
  Claim C5, amended. For every sender, recipient and product, the send the hook exposes,
  called with content that is blank after trimming, returns at once with no result and
  no error; the backend is not called, so nothing is persisted, and the hook's state is
  unchanged.
\<close>

theorem blank_send_is_noop:
  "trim content_text = [] \<longrightarrow>
     sendMessage productId otherUserId user configured rpc content_text (st, backend) =
       (Inr None, st, backend)"
  by (auto simp: sendMessage_def split: option.splits)

theorem blank_send_is_noop_witness:
  "trim [CHR 0x09, CHR '' '', CHR 0x0A] = [] \<and>
   sendMessage (Some ''P42'') (Some ''bob'') (Some ''alice'') True recording_backend
     [CHR 0x09, CHR '' '', CHR 0x0A] (sample_hook [], []) = (Inr None, sample_hook [], [])"
  using blank_send_is_noop
    [of "[CHR 0x09, CHR '' '', CHR 0x0A]" "Some ''P42''" "Some ''bob''" "Some ''alice''" True
        recording_backend "sample_hook []" "[]"]
  by (simp add: trim_def is_js_space_def)

subsection \<open>Read state and the unread count\<close>

lemma mark_read_clears:
  "filter (unread_in_thread u p c) (snd (mark_product_messages_as_read u t p c store)) = []"
  by (induction store)
     (auto simp: mark_product_messages_as_read_def unread_in_thread_def)

lemma mark_read_none_left:
  "filter (unread_in_thread u p c) store = [] \<Longrightarrow>
   mark_product_messages_as_read u t p c store = (0, store)"
  by (auto simp: mark_product_messages_as_read_def filter_empty_conv intro: map_idI)

text \<open>
  Claim C9. Marking a thread as read twice in succession leaves the store as the first
  call left it: the second call updates zero rows, the wrapper of a configured client
  returns without error both times, and the unread count of the user is the same after
  the second call as after the first. Marking a thread in which nothing is unread
  succeeds and changes nothing.
\<close>

theorem markRead_idempotent:
  "mark_product_messages_as_read u t2 p c
      (snd (mark_product_messages_as_read u t1 p c store)) =
     (0, snd (mark_product_messages_as_read u t1 p c store)) \<and>
   markMessagesAsRead True (mark_read_rpc u t2) p c
      (snd (markMessagesAsRead True (mark_read_rpc u t1) p c store)) =
     (Inr (), snd (markMessagesAsRead True (mark_read_rpc u t1) p c store)) \<and>
   get_unread_message_count u
      (snd (markMessagesAsRead True (mark_read_rpc u t2) p c
         (snd (markMessagesAsRead True (mark_read_rpc u t1) p c store)))) =
     get_unread_message_count u (snd (markMessagesAsRead True (mark_read_rpc u t1) p c store)) \<and>
   ((\<forall>r \<in> set store. \<not> unread_in_thread u p c r) \<longrightarrow>
      mark_product_messages_as_read u t1 p c store = (0, store) \<and>
      markMessagesAsRead True (mark_read_rpc u t1) p c store = (Inr (), store))"
proof -
  let ?s1 = "snd (mark_product_messages_as_read u t1 p c store)"
  have second: "mark_product_messages_as_read u t2 p c ?s1 = (0, ?s1)"
    by (rule mark_read_none_left) (rule mark_read_clears)
  have wrap: "markMessagesAsRead True (mark_read_rpc u t) p c s =
      (Inr (), snd (mark_product_messages_as_read u t p c s))" for t s
    by (simp add: markMessagesAsRead_def checkSupabaseConfig_def mark_read_rpc_def)
  have quiet: "mark_product_messages_as_read u t1 p c store = (0, store)"
    if "\<forall>r \<in> set store. \<not> unread_in_thread u p c r"
    using that by (intro mark_read_none_left) (simp add: filter_empty_conv)
  show ?thesis
    using second quiet by (auto simp: wrap)
qed

text \<open>Bob has two unread messages, one of them in the thread with Alice on P42: the
  first call marks it, the second marks none; in the thread with Carol nothing is
  unread, and marking it succeeds.\<close>

theorem markRead_idempotent_witness:
  "mark_product_messages_as_read ''bob'' 300 ''P42'' ''alice''
      (snd (mark_product_messages_as_read ''bob'' 200 ''P42'' ''alice'' sample_store)) =
     (0, snd (mark_product_messages_as_read ''bob'' 200 ''P42'' ''alice'' sample_store)) \<and>
   fst (mark_product_messages_as_read ''bob'' 200 ''P42'' ''alice'' sample_store) = 1 \<and>
   get_unread_message_count ''bob'' sample_store = 2 \<and>
   get_unread_message_count ''bob''
      (snd (mark_product_messages_as_read ''bob'' 200 ''P42'' ''alice'' sample_store)) = 1 \<and>
   filter (unread_in_thread ''bob'' ''P42'' ''carol'') sample_store = [] \<and>
   markMessagesAsRead True (mark_read_rpc ''bob'' 200) ''P42'' ''carol'' sample_store =
     (Inr (), sample_store)"
  using markRead_idempotent [of "''bob''" 300 "''P42''" "''alice''" 200 sample_store]
    markRead_idempotent [of "''bob''" 300 "''P42''" "''carol''" 200 sample_store]
  by (simp add: sample_store_def unread_in_thread_def mark_product_messages_as_read_def
      get_unread_message_count_def)

text \<open>
  Claim C10. \<^verbatim>\<open>getUnreadMessageCount\<close> never hands an error to its caller: its result
  is always a number, and on every failure (the backend not configured, the call
  throwing, the reply carrying an error) that number is 0, which is also what it returns
  for a reply without data and for a user with no unread message.
\<close>

theorem getUnreadMessageCount_never_raises:
  "\<not> isl (getUnreadMessageCount configured rpc) \<and>
   getUnreadMessageCount False rpc = Inr 0 \<and>
   getUnreadMessageCount configured (Threw e) = Inr 0 \<and>
   getUnreadMessageCount configured (Replied d (Some e)) = Inr 0 \<and>
   getUnreadMessageCount configured (Replied None None) = Inr 0 \<and>
   getUnreadMessageCount True (unread_count_rpc uid []) = Inr 0"
  by (cases rpc rule: data_or_throw.cases)
     (auto simp: getUnreadMessageCount_def unread_count_body_def checkSupabaseConfig_def
        unread_count_rpc_def get_unread_message_count_def split: sum.splits option.splits)

end
